theory Spec2Isabelle
  imports Main "HOL-Library.AList" "HOL-Library.Sublist"
begin

section \<open>Data model of MCPServerProxy (src/src/server.ts)\<close>

text \<open>
  An entry of \<open>ServerConfig.mcpServers\<close> is declared as \<open>{command, args} | {url}\<close>, but it
  comes out of \<open>JSON.parse\<close> unchecked, and \<open>connectToServer\<close> itself tests
  \<open>"command" in config\<close> and \<open>"url" in config\<close>. Each of the two keys is therefore optional
  here: \<open>None\<close> is "the key is not in the object".
\<close>

record backend_config =
  command :: "string option"
  args :: "string list"
  url :: "string option"

text \<open>
  \<open>mcpServers\<close> is the list \<open>Object.entries\<close> gives for the object: the pairs of backend id
  and descriptor in the object's own key order.
\<close>

record server_config =
  mcpServers :: "(string \<times> backend_config) list"

datatype transport =
    StdioClientTransport string "string list"
  | SSEClientTransport string

text \<open>
  A \<open>Client\<close> of the SDK, as far as the proxy determines it: the name it was constructed
  with and the transport it was connected over.
\<close>

record client =
  clientName :: string
  clientTransport :: transport

text \<open>The \<open>Tool\<close> of the SDK: \<open>description\<close> is optional, \<open>inputSchema\<close> is opaque.\<close>

record tool =
  name :: string
  description :: "string option"
  inputSchema :: string

record tool_info =
  serverId :: string
  tool :: tool

text \<open>
  Thrown values. \<open>Error m\<close> is \<open>new Error(m)\<close>; \<open>External r\<close> is whatever a library call
  threw, kept as the text that string interpolation renders it as.
\<close>

datatype js_error = Error string | External string

fun toString :: "js_error \<Rightarrow> string" where
  "toString (Error m) = (if m = [] then ''Error'' else ''Error: '' @ m)"
| "toString (External r) = r"

type_synonym json_object = "(string \<times> string) list"

datatype progress_token = TokenString string | TokenNumber int

record request_meta =
  progressToken :: "progress_token option"

record call_tool_params =
  params_name :: string
  params_arguments :: "json_object option"
  params_meta :: "request_meta option"

datatype content = TextContent string | OtherContent string

text \<open>
  The result of a tool call, both as a backend returns it and as the proxy builds it for
  its own error responses (\<open>{content, isError, _meta}\<close>).
\<close>

record call_tool_result =
  content :: "content list"
  isError :: "bool option"
  result_meta :: "request_meta option"

text \<open>The caller-facing SSE transport of a session, known to the proxy by its session id.\<close>

datatype sse_transport = SSEServerTransport (sessionId: string)

record http_response =
  status :: nat
  body :: json_object

text \<open>
  What the proxy does to the world outside, oldest first: the connections it opened, the
  \<open>close()\<close> calls it made, the tool calls it forwarded and the lines it logged.
\<close>

datatype event =
    ClientConnected client
  | ClientCloseCalled client
  | SessionCloseCalled sse_transport
  | ToolCalled client string json_object
  | LogInfo string "string list"
  | LogError string js_error

text \<open>
  The fields of the class. \<open>clients\<close> and \<open>toolMap\<close> are JavaScript \<open>Map\<close>s: association
  lists in insertion order, written with \<open>AList.update\<close> (a key that is present keeps its
  place, a new key goes last) and read with \<open>map_of\<close>. \<open>transports\<close> is a plain object: the
  list holds its own properties. \<open>effects\<close> is the trace of events so far.
\<close>

record proxy =
  config :: server_config
  clients :: "(string \<times> client) list"
  toolMap :: "(string \<times> tool_info) list"
  currentProfile :: string
  transports :: "(string \<times> sse_transport) list"
  effects :: "event list"

text \<open>
  The collaborators the proxy calls, as parameters: reading and parsing
  \<open>config.<profile>.json\<close>, the SDK client (\<open>connect\<close> also stands for building the
  transport, where \<open>new URL\<close> can throw), closing (\<open>closeClient\<close> is
  \<open>client.transport?.close()\<close>), and the session transport of \<open>./sse\<close>.
  \<open>Inl\<close> and \<open>Some\<close> are a thrown value or a rejected promise.
\<close>

record environment =
  readFile :: "string \<Rightarrow> js_error + server_config"
  connect :: "client \<Rightarrow> js_error option"
  listTools :: "client \<Rightarrow> js_error + tool list"
  callTool :: "client \<Rightarrow> string \<Rightarrow> json_object \<Rightarrow> js_error + call_tool_result"
  closeClient :: "client \<Rightarrow> js_error option"
  closeSession :: "sse_transport \<Rightarrow> js_error option"
  handlePostMessage :: "sse_transport \<Rightarrow> string \<Rightarrow> js_error + http_response"
  serverConnect :: "js_error option"

section \<open>The constructor\<close>

definition initial :: proxy where
  "initial = \<lparr>config = \<lparr>mcpServers = []\<rparr>, clients = [], toolMap = [],
     currentProfile = ''default'', transports = [], effects = []\<rparr>"

section \<open>Logging\<close>

definition logInfo :: "string \<Rightarrow> string list \<Rightarrow> proxy \<Rightarrow> proxy" where
  "logInfo msg extra s = s\<lparr>effects := effects s @ [LogInfo msg extra]\<rparr>"

definition logError :: "string \<Rightarrow> js_error \<Rightarrow> proxy \<Rightarrow> proxy" where
  "logError msg e s = s\<lparr>effects := effects s @ [LogError msg e]\<rparr>"

section \<open>readConfig\<close>

definition readConfig :: "environment \<Rightarrow> string \<Rightarrow> proxy \<Rightarrow> (js_error + unit) \<times> proxy" where
  "readConfig env profile s =
     (case readFile env profile of
        Inr configData \<Rightarrow> (Inr (), s\<lparr>config := configData\<rparr>)
      | Inl e \<Rightarrow>
          (Inl (Error (''Failed to load profile '' @ profile)),
           logError (''Error reading config file for profile '' @ profile @ '':'') e s))"

section \<open>connectToServer\<close>

definition prefixedName :: "string \<Rightarrow> tool \<Rightarrow> string" where
  "prefixedName sid t = sid @ ''_'' @ name t"

fun registerTools :: "string \<Rightarrow> tool list \<Rightarrow> (string \<times> tool_info) list \<Rightarrow> (string \<times> tool_info) list" where
  "registerTools sid [] m = m"
| "registerTools sid (t # ts) m =
     registerTools sid ts (AList.update (prefixedName sid t) \<lparr>serverId = sid, tool = t\<rparr> m)"

definition newTransport :: "backend_config \<Rightarrow> js_error + transport" where
  "newTransport cfg =
     (if command cfg = None \<and> url cfg = None then Inl (Error ''Command or url not found in config'')
      else case command cfg of
             Some c \<Rightarrow> Inr (StdioClientTransport c (args cfg))
           | None \<Rightarrow> (case url cfg of
                        Some u \<Rightarrow> Inr (SSEClientTransport u)
                      | None \<Rightarrow> Inl (Error ''Command or url not found in config'')))"

text \<open>\<open>new Client({ name: `proxy-${serverId}`, version: "1.0.0" })\<close>, connected over \<open>tr\<close>.\<close>

definition newClient :: "string \<Rightarrow> transport \<Rightarrow> client" where
  "newClient sid tr = \<lparr>clientName = ''proxy-'' @ sid, clientTransport = tr\<rparr>"

definition connectToServer ::
  "environment \<Rightarrow> string \<Rightarrow> backend_config \<Rightarrow> proxy \<Rightarrow> (js_error + unit) \<times> proxy" where
  "connectToServer env sid cfg s =
     (if map_of (clients s) sid \<noteq> None then (Inr (), s)
      else case newTransport cfg of
        Inl e \<Rightarrow> (Inl e, s)
      | Inr tr \<Rightarrow>
          (let c = newClient sid tr in
           case connect env c of
             Some e \<Rightarrow> (Inl e, s)
           | None \<Rightarrow>
               (let s1 = s\<lparr>clients := AList.update sid c (clients s),
                            effects := effects s @ [ClientConnected c]\<rparr> in
                case listTools env c of
                  Inl e \<Rightarrow> (Inl e, s1)
                | Inr ts \<Rightarrow>
                    (let s2 = logInfo (''Connected to '' @ sid @ '' with tools:'') (map name ts) s1
                     in (Inr (), s2\<lparr>toolMap := registerTools sid ts (toolMap s2)\<rparr>)))))"

section \<open>handleListTools\<close>

definition decorate :: "string \<Rightarrow> tool_info \<Rightarrow> tool" where
  "decorate profile info =
     (tool info)\<lparr>name := serverId info @ ''_'' @ name (tool info),
                 description := Some (''['' @ profile @ ''/'' @ serverId info @ ''] '' @
                   (case description (tool info) of None \<Rightarrow> [] | Some d \<Rightarrow> d))\<rparr>"

definition handleListTools :: "proxy \<Rightarrow> tool list \<times> proxy" where
  "handleListTools s = (map (decorate (currentProfile s)) (map snd (toolMap s)), s)"

section \<open>handleCallTool\<close>

definition errorResult :: "string \<Rightarrow> request_meta option \<Rightarrow> call_tool_result" where
  "errorResult txt m = \<lparr>content = [TextContent txt], isError = Some True, result_meta = m\<rparr>"

text \<open>The body of the \<open>try\<close> block: the second lookup and the forwarded call.\<close>

definition forwardCall ::
  "environment \<Rightarrow> client \<Rightarrow> string \<Rightarrow> json_object \<Rightarrow> proxy \<Rightarrow> (js_error + call_tool_result) \<times> proxy" where
  "forwardCall env c qname as s =
     (case map_of (toolMap s) qname of
        None \<Rightarrow> (Inl (Error (''Original tool name not found for '' @ qname)), s)
      | Some mappedTool \<Rightarrow>
          (callTool env c (name (tool mappedTool)) as,
           s\<lparr>effects := effects s @ [ToolCalled c (name (tool mappedTool)) as]\<rparr>))"

definition handleCallTool ::
  "environment \<Rightarrow> call_tool_params \<Rightarrow> proxy \<Rightarrow> (js_error + call_tool_result) \<times> proxy" where
  "handleCallTool env params s =
     (let qname = params_name params;
          as = (case params_arguments params of None \<Rightarrow> [] | Some a \<Rightarrow> a);
          m = params_meta params
      in case map_of (toolMap s) qname of
        None \<Rightarrow>
          (Inr (errorResult (''Tool '' @ qname @ '' not found in profile '' @ currentProfile s) m), s)
      | Some toolInfo \<Rightarrow>
          (case map_of (clients s) (serverId toolInfo) of
             None \<Rightarrow>
               (Inr (errorResult (''Server '' @ serverId toolInfo @ '' not connected in profile ''
                        @ currentProfile s) m), s)
           | Some c \<Rightarrow>
               (case forwardCall env c qname as s of
                  (Inr r, s') \<Rightarrow> (Inr r, s')
                | (Inl e, s') \<Rightarrow>
                    (Inr (errorResult (''Error calling tool '' @ qname @ '': '' @ toString e) m), s'))))"

section \<open>cleanup\<close>

fun closeTransports :: "environment \<Rightarrow> sse_transport list \<Rightarrow> proxy \<Rightarrow> proxy" where
  "closeTransports env [] s = s"
| "closeTransports env (t # ts) s =
     (let s1 = s\<lparr>effects := effects s @ [SessionCloseCalled t]\<rparr> in
      closeTransports env ts
        (case closeSession env t of
           None \<Rightarrow> s1
         | Some e \<Rightarrow> logError ''Error closing transport:'' e s1))"

fun closeClients :: "environment \<Rightarrow> client list \<Rightarrow> proxy \<Rightarrow> proxy" where
  "closeClients env [] s = s"
| "closeClients env (c # cs) s =
     (let s1 = s\<lparr>effects := effects s @ [ClientCloseCalled c]\<rparr> in
      closeClients env cs
        (case closeClient env c of
           None \<Rightarrow> s1
         | Some e \<Rightarrow> logError ''Error disconnecting client:'' e s1))"

definition cleanup :: "environment \<Rightarrow> proxy \<Rightarrow> proxy" where
  "cleanup env s =
     (let s1 = closeTransports env (map snd (transports s)) s;
          s2 = s1\<lparr>transports := []\<rparr>
      in closeClients env (map snd (clients s2)) s2)"

section \<open>switchProfile and start\<close>

text \<open>
  The loop over \<open>Object.entries(this.config.mcpServers)\<close>, which \<open>switchProfile\<close> and
  \<open>start\<close> both have; they differ in the line they log, the parameter \<open>msg\<close>.
\<close>

fun connectServers ::
  "environment \<Rightarrow> (string \<Rightarrow> string) \<Rightarrow> (string \<times> backend_config) list \<Rightarrow> proxy \<Rightarrow> proxy" where
  "connectServers env msg [] s = s"
| "connectServers env msg ((sid, cfg) # rest) s =
     (case connectToServer env sid cfg s of
        (Inr u, s') \<Rightarrow> connectServers env msg rest s'
      | (Inl e, s') \<Rightarrow> connectServers env msg rest (logError (msg sid) e s'))"

definition switchProfile :: "environment \<Rightarrow> string \<Rightarrow> proxy \<Rightarrow> (js_error + unit) \<times> proxy" where
  "switchProfile env profileName s =
     (let s1 = cleanup env s;
          s2 = s1\<lparr>clients := [], toolMap := []\<rparr>
      in case readConfig env profileName s2 of
        (Inl e, s3) \<Rightarrow> (Inl e, s3)
      | (Inr u, s3) \<Rightarrow>
          (Inr (),
           connectServers env
             (\<lambda>sid. ''Failed to connect to server '' @ sid @ '' in profile '' @ profileName @ '':'')
             (mcpServers (config s3)) (s3\<lparr>currentProfile := profileName\<rparr>)))"

datatype mode = Stdio | SSE

text \<open>\<open>address\<close> is the \<open>host:port\<close> the SSE mode listens on, as the log line prints it.\<close>

definition start ::
  "environment \<Rightarrow> string \<Rightarrow> mode \<Rightarrow> string \<Rightarrow> proxy \<Rightarrow> (js_error + unit) \<times> proxy" where
  "start env initialProfile md address s =
     (case readConfig env initialProfile s of
        (Inl e, s1) \<Rightarrow> (Inl e, s1)
      | (Inr u, s1) \<Rightarrow>
          (let s2 = connectServers env (\<lambda>sid. ''Failed to connect to server '' @ sid @ '':'')
                      (mcpServers (config s1)) (s1\<lparr>currentProfile := initialProfile\<rparr>)
           in case md of
             Stdio \<Rightarrow>
               (case serverConnect env of
                  Some e \<Rightarrow> (Inl e, s2)
                | None \<Rightarrow>
                    (Inr (), logInfo (''MCP Server Proxy running on stdio with profile ''
                               @ currentProfile s2) [] s2))
           | SSE \<Rightarrow>
               (Inr (), logInfo (''MCP Server Proxy running on SSE at http://'' @ address
                          @ '' with profile '' @ currentProfile s2) [] s2)))"

section \<open>The SSE endpoints\<close>

text \<open>
  \<open>this.transports\<close> is an object literal, so \<open>this.transports[sessionId]\<close> reads an own
  property when the object has one under that key, and otherwise what the key names on
  \<open>Object.prototype\<close>, if anything. The prototype's members are functions and objects:
  truthy, and without a \<open>handlePostMessage\<close>.
\<close>

definition objectPrototypeKeys :: "string list" where
  "objectPrototypeKeys =
     [''constructor'', ''__proto__'', ''hasOwnProperty'', ''isPrototypeOf'',
      ''propertyIsEnumerable'', ''toLocaleString'', ''toString'', ''valueOf'',
      ''__defineGetter__'', ''__defineSetter__'', ''__lookupGetter__'', ''__lookupSetter__'']"

datatype 'a property = Own 'a | Inherited | Undefined

definition getProperty :: "(string \<times> 'a) list \<Rightarrow> string \<Rightarrow> 'a property" where
  "getProperty obj k =
     (case map_of obj k of
        Some v \<Rightarrow> Own v
      | None \<Rightarrow> if k \<in> set objectPrototypeKeys then Inherited else Undefined)"

text \<open>\<open>GET /sse\<close>, for a transport whose session id is \<open>sid\<close>.\<close>

definition getSse :: "environment \<Rightarrow> string \<Rightarrow> proxy \<Rightarrow> proxy" where
  "getSse env sid s =
     (let s1 = s\<lparr>transports := AList.update sid (SSEServerTransport sid) (transports s)\<rparr> in
      case serverConnect env of
        None \<Rightarrow> s1
      | Some e \<Rightarrow> logError ''Error connecting SSE transport:'' e s1)"

text \<open>The handlers \<open>GET /sse\<close> installs: \<open>onclose\<close>, \<open>onerror\<close>, and the two on the request's \<open>close\<close>.\<close>

definition onclose :: "sse_transport \<Rightarrow> proxy \<Rightarrow> proxy" where
  "onclose t s =
     (let s1 = logInfo (''SSE connection closed (session '' @ sessionId t @ '')'') [] s in
      s1\<lparr>transports := AList.delete (sessionId t) (transports s1)\<rparr>)"

definition onerror :: "sse_transport \<Rightarrow> js_error \<Rightarrow> proxy \<Rightarrow> proxy" where
  "onerror t e s =
     (let s1 = logError (''SSE error (session '' @ sessionId t @ ''):'') e s in
      s1\<lparr>transports := AList.delete (sessionId t) (transports s1)\<rparr>)"

definition requestClosed :: "environment \<Rightarrow> sse_transport \<Rightarrow> proxy \<Rightarrow> proxy" where
  "requestClosed env t s =
     (let s1 = logInfo (''Client disconnected (session '' @ sessionId t @ '')'') [] s;
          s2 = s1\<lparr>transports := AList.delete (sessionId t) (transports s1)\<rparr>;
          s3 = s2\<lparr>transports := AList.delete (sessionId t) (transports s2)\<rparr>;
          s4 = s3\<lparr>effects := effects s3 @ [SessionCloseCalled t]\<rparr>
      in case closeSession env t of
           None \<Rightarrow> s4
         | Some e \<Rightarrow> logError ''Error closing transport:'' e s4)"

text \<open>\<open>POST /messages?sessionId=sid\<close> with the request \<open>req\<close>.\<close>

definition postMessages :: "environment \<Rightarrow> string \<Rightarrow> string \<Rightarrow> proxy \<Rightarrow> http_response \<times> proxy" where
  "postMessages env sid req s =
     (case getProperty (transports s) sid of
        Undefined \<Rightarrow>
          (\<lparr>status = 400, body = [(''error'', ''No transport found for sessionId'')]\<rparr>,
           logInfo ''No transport found for sessionId'' [sid] s)
      | Own t \<Rightarrow>
          (case handlePostMessage env t req of
             Inr res \<Rightarrow> (res, s)
           | Inl e \<Rightarrow>
               (\<lparr>status = 500, body = [(''error'', ''Internal server error'')]\<rparr>,
                logError ''Error handling message:'' e s))
      | Inherited \<Rightarrow>
          (\<lparr>status = 500, body = [(''error'', ''Internal server error'')]\<rparr>,
           logError ''Error handling message:''
             (External ''TypeError: transport.handlePostMessage is not a function'') s))"

section \<open>Reachable states and open connections\<close>

text \<open>The states the proxy can be in: the constructor's, and what each entry point makes of one.\<close>

inductive reachable :: "environment \<Rightarrow> proxy \<Rightarrow> bool" for env :: environment where
  reach_initial: "reachable env initial"
| reach_start: "reachable env s \<Longrightarrow> reachable env (snd (start env p md address s))"
| reach_switchProfile: "reachable env s \<Longrightarrow> reachable env (snd (switchProfile env p s))"
| reach_handleListTools: "reachable env s \<Longrightarrow> reachable env (snd (handleListTools s))"
| reach_handleCallTool: "reachable env s \<Longrightarrow> reachable env (snd (handleCallTool env params s))"
| reach_getSse: "reachable env s \<Longrightarrow> reachable env (getSse env sid s)"
| reach_postMessages: "reachable env s \<Longrightarrow> reachable env (snd (postMessages env sid req s))"
| reach_onclose: "reachable env s \<Longrightarrow> reachable env (onclose t s)"
| reach_onerror: "reachable env s \<Longrightarrow> reachable env (onerror t e s)"
| reach_requestClosed: "reachable env s \<Longrightarrow> reachable env (requestClosed env t s)"

code_pred reachable .

text \<open>
  The connections open after a trace: a connection is open from the \<open>connect\<close> that
  succeeded until \<open>close()\<close> is called on it.
\<close>

fun replay :: "client list \<Rightarrow> event \<Rightarrow> client list" where
  "replay cs (ClientConnected c) = cs @ [c]"
| "replay cs (ClientCloseCalled c) = remove1 c cs"
| "replay cs (SessionCloseCalled t) = cs"
| "replay cs (ToolCalled c n as) = cs"
| "replay cs (LogInfo m xs) = cs"
| "replay cs (LogError m e) = cs"

definition openConnections :: "event list \<Rightarrow> client list" where
  "openConnections tr = foldl replay [] tr"

text \<open>
  Two properties of a state. \<open>toolsOwned\<close>: every registry entry stands under its prefixed
  name and belongs to a backend that has a client in \<open>clients\<close>. \<open>connectionsHeld\<close>: the
  connections open are those of the clients in \<open>clients\<close>, in the order of the map.
\<close>

definition toolsOwned :: "proxy \<Rightarrow> bool" where
  "toolsOwned s =
     list_all (\<lambda>(k, info). map_of (clients s) (serverId info) \<noteq> None
        \<and> k = prefixedName (serverId info) (tool info)) (toolMap s)"

definition connectionsHeld :: "proxy \<Rightarrow> bool" where
  "connectionsHeld s = (openConnections (effects s) = map snd (clients s))"

text \<open>Two states that agree on the client set, the tool registry and the current profile name.\<close>

definition sameMaps :: "proxy \<Rightarrow> proxy \<Rightarrow> bool" where
  "sameMaps s t =
     (clients s = clients t \<and> toolMap s = toolMap t \<and> currentProfile s = currentProfile t)"

section \<open>What a backend does when it is asked to connect\<close>

text \<open>
  \<open>connects env sid cfg\<close>: the descriptor gives a transport and the connection over it
  is established. \<open>reportedTools env sid cfg\<close>: the tools the backend then lists, none when
  there is no connection or the listing fails.
\<close>

definition connects :: "environment \<Rightarrow> string \<Rightarrow> backend_config \<Rightarrow> bool" where
  "connects env sid cfg =
     (case newTransport cfg of
        Inl e \<Rightarrow> False
      | Inr tr \<Rightarrow> connect env (newClient sid tr) = None)"


section \<open>An example deployment\<close>

text \<open>
  Profile \<open>developer\<close> has a \<open>kubernetes\<close> backend (as in the README) that connects and
  reports \<open>get_pods\<close>, a \<open>docker\<close> backend that connects and reports \<open>list_containers\<close> but
  whose connection has gone by the time a tool is called, and a \<open>legacy\<close> entry with
  neither a command nor a url. Profile \<open>personal\<close> has a \<open>filesystem\<close> backend that cannot
  be spawned. No other profile has a config file.
\<close>

definition kubernetes :: backend_config where
  "kubernetes = \<lparr>command = Some ''npx'', args = [''mcp-server-kubernetes''], url = None\<rparr>"

definition docker :: backend_config where
  "docker = \<lparr>command = None, args = [], url = Some ''http://localhost:8811/sse''\<rparr>"

definition legacy :: backend_config where
  "legacy = \<lparr>command = None, args = [], url = None\<rparr>"

definition filesystem :: backend_config where
  "filesystem = \<lparr>command = Some ''npx'', args = [''-y'', ''server-filesystem''], url = None\<rparr>"

definition get_pods :: tool where
  "get_pods = \<lparr>name = ''get_pods'', description = Some ''List pods'', inputSchema = ''{}''\<rparr>"

definition list_containers :: tool where
  "list_containers = \<lparr>name = ''list_containers'', description = None, inputSchema = ''{}''\<rparr>"

definition pods :: call_tool_result where
  "pods = \<lparr>content = [TextContent ''pod-a''], isError = None, result_meta = None\<rparr>"

definition exampleEnv :: environment where
  "exampleEnv =
     \<lparr>readFile = (\<lambda>p.
         if p = ''developer''
         then Inr \<lparr>mcpServers = [(''kubernetes'', kubernetes), (''docker'', docker), (''legacy'', legacy)]\<rparr>
         else if p = ''personal'' then Inr \<lparr>mcpServers = [(''filesystem'', filesystem)]\<rparr>
         else Inl (External ''Error: ENOENT: no such file or directory'')),
      connect = (\<lambda>c.
         if clientName c = ''proxy-filesystem'' then Some (External ''Error: spawn npx ENOENT'')
         else None),
      listTools = (\<lambda>c.
         if clientName c = ''proxy-kubernetes'' then Inr [get_pods]
         else if clientName c = ''proxy-docker'' then Inr [list_containers]
         else Inl (Error ''Not connected'')),
      callTool = (\<lambda>c n as.
         if clientName c = ''proxy-kubernetes'' \<and> n = ''get_pods'' then Inr pods
         else Inl (Error ''Not connected'')),
      closeClient = (\<lambda>c. None),
      closeSession = (\<lambda>t. None),
      handlePostMessage = (\<lambda>t req. Inr \<lparr>status = 202, body = []\<rparr>),
      serverConnect = None\<rparr>"

definition kubernetesClient :: client where
  "kubernetesClient = newClient ''kubernetes'' (StdioClientTransport ''npx'' [''mcp-server-kubernetes''])"

definition dockerClient :: client where
  "dockerClient = newClient ''docker'' (SSEClientTransport ''http://localhost:8811/sse'')"

text \<open>The proxy with profile \<open>developer\<close> active, and after a first activation of \<open>personal\<close>.\<close>

definition developerProxy :: proxy where
  "developerProxy = snd (switchProfile exampleEnv ''developer'' initial)"

definition personalProxy :: proxy where
  "personalProxy = snd (switchProfile exampleEnv ''personal'' initial)"

section \<open>Auxiliary lemmas\<close>

subsection \<open>Maps as lists, and one call of connectToServer\<close>

lemma set_update_subset: "set (AList.update k v al) \<subseteq> insert (k, v) (set al)"
  by (induction al) auto

lemma set_registerTools:
  "set (registerTools sid ts m) \<subseteq> set m \<union> (\<lambda>t. (prefixedName sid t, \<lparr>serverId = sid, tool = t\<rparr>)) ` set ts"
proof (induction ts arbitrary: m)
  case Nil
  then show ?case by simp
next
  case (Cons t ts)
  have "set (registerTools sid (t # ts) m)
      \<subseteq> set (AList.update (prefixedName sid t) \<lparr>serverId = sid, tool = t\<rparr> m)
        \<union> (\<lambda>t. (prefixedName sid t, \<lparr>serverId = sid, tool = t\<rparr>)) ` set ts"
    using Cons.IH by simp
  also have "\<dots> \<subseteq> set m \<union> (\<lambda>t. (prefixedName sid t, \<lparr>serverId = sid, tool = t\<rparr>)) ` set (t # ts)"
    using set_update_subset [of "prefixedName sid t" "\<lparr>serverId = sid, tool = t\<rparr>" m] by auto
  finally show ?case .
qed

text \<open>What one call of \<open>connectToServer\<close> can do to the state.\<close>

lemma connectToServer_cases:
  assumes "connectToServer env sid cfg s = (r, s')"
  obtains
    (present) "map_of (clients s) sid \<noteq> None" "r = Inr ()" "s' = s"
  | (failed) e where "map_of (clients s) sid = None" "r = Inl e" "s' = s" "\<not> connects env sid cfg"
  | (unlisted) tr e where "map_of (clients s) sid = None" "newTransport cfg = Inr tr"
      "connect env (newClient sid tr) = None" "listTools env (newClient sid tr) = Inl e"
      "r = Inl e"
      "s' = s\<lparr>clients := AList.update sid (newClient sid tr) (clients s),
               effects := effects s @ [ClientConnected (newClient sid tr)]\<rparr>"
  | (listed) tr ts where "map_of (clients s) sid = None" "newTransport cfg = Inr tr"
      "connect env (newClient sid tr) = None" "listTools env (newClient sid tr) = Inr ts"
      "r = Inr ()"
      "s' = s\<lparr>clients := AList.update sid (newClient sid tr) (clients s),
               effects := effects s @ [ClientConnected (newClient sid tr),
                 LogInfo (''Connected to '' @ sid @ '' with tools:'') (map name ts)],
               toolMap := registerTools sid ts (toolMap s)\<rparr>"
  using assms
  by (auto simp: connectToServer_def connects_def logInfo_def Let_def
      split: if_splits sum.splits option.splits)


subsection \<open>Frames\<close>

lemma closeTransports_frame [simp]:
  "config (closeTransports env ts s) = config s"
  "clients (closeTransports env ts s) = clients s"
  "toolMap (closeTransports env ts s) = toolMap s"
  "currentProfile (closeTransports env ts s) = currentProfile s"
  "transports (closeTransports env ts s) = transports s"
  by (induction ts arbitrary: s; simp add: logError_def Let_def split: option.splits)+

lemma closeClients_frame [simp]:
  "config (closeClients env cs s) = config s"
  "clients (closeClients env cs s) = clients s"
  "toolMap (closeClients env cs s) = toolMap s"
  "currentProfile (closeClients env cs s) = currentProfile s"
  "transports (closeClients env cs s) = transports s"
  by (induction cs arbitrary: s; simp add: logError_def Let_def split: option.splits)+

lemma cleanup_frame [simp]:
  "config (cleanup env s) = config s"
  "clients (cleanup env s) = clients s"
  "toolMap (cleanup env s) = toolMap s"
  "currentProfile (cleanup env s) = currentProfile s"
  "transports (cleanup env s) = []"
  by (simp_all add: cleanup_def Let_def)

lemma connectServers_frame_all:
  "config (connectServers env msg xs s) = config s \<and>
   currentProfile (connectServers env msg xs s) = currentProfile s \<and>
   transports (connectServers env msg xs s) = transports s"
proof (induction xs arbitrary: s)
  case Nil
  show ?case by simp
next
  case (Cons x xs)
  obtain sid cfg where x: "x = (sid, cfg)" by (cases x)
  obtain r s' where c: "connectToServer env sid cfg s = (r, s')" by (cases "connectToServer env sid cfg s")
  have f: "config s' = config s \<and> currentProfile s' = currentProfile s \<and> transports s' = transports s"
    using c by (cases rule: connectToServer_cases) auto
  show ?case
  proof (cases r)
    case (Inl e)
    then show ?thesis using Cons.IH [of "logError (msg sid) e s'"] f by (simp add: x c logError_def)
  next
    case (Inr u)
    then show ?thesis using Cons.IH [of s'] f by (simp add: x c)
  qed
qed

lemma connectServers_frame [simp]:
  "config (connectServers env msg xs s) = config s"
  "currentProfile (connectServers env msg xs s) = currentProfile s"
  "transports (connectServers env msg xs s) = transports s"
  using connectServers_frame_all [of env msg xs s] by simp_all

subsection \<open>toolsOwned\<close>

lemma toolsOwned_iff:
  "toolsOwned s \<longleftrightarrow> (\<forall>(k, info) \<in> set (toolMap s). map_of (clients s) (serverId info) \<noteq> None
        \<and> k = prefixedName (serverId info) (tool info))"
  by (simp add: toolsOwned_def list_all_iff)

lemma toolsOwned_cong:
  "toolMap s = toolMap t \<Longrightarrow> clients s = clients t \<Longrightarrow> toolsOwned s = toolsOwned t"
  by (simp add: toolsOwned_def)

lemma toolsOwned_connectToServer:
  assumes "toolsOwned s"
  shows "toolsOwned (snd (connectToServer env sid cfg s))"
proof -
  obtain r s' where c: "connectToServer env sid cfg s = (r, s')" by (cases "connectToServer env sid cfg s")
  from c have "toolsOwned s'"
  proof (cases rule: connectToServer_cases)
    case present
    then show ?thesis using assms by simp
  next
    case (failed e)
    then show ?thesis using assms by simp
  next
    case (unlisted tr e)
    then show ?thesis using assms by (auto simp: toolsOwned_iff update_conv')
  next
    case (listed tr ts)
    show ?thesis
      unfolding toolsOwned_iff
    proof (clarify)
      fix k info assume "(k, info) \<in> set (toolMap s')"
      then have "(k, info) \<in> set (registerTools sid ts (toolMap s))" using listed by simp
      then have "(k, info) \<in> set (toolMap s) \<or> (\<exists>t. k = prefixedName sid t \<and> info = \<lparr>serverId = sid, tool = t\<rparr>)"
        using set_registerTools [of sid ts "toolMap s"] by auto
      then show "map_of (clients s') (serverId info) \<noteq> None \<and> k = prefixedName (serverId info) (tool info)"
        using assms listed by (auto simp: toolsOwned_iff update_conv')
    qed
  qed
  then show ?thesis using c by simp
qed

lemma toolsOwned_connectServers:
  "toolsOwned s \<Longrightarrow> toolsOwned (connectServers env msg xs s)"
proof (induction xs arbitrary: s)
  case Nil
  then show ?case by simp
next
  case (Cons x xs)
  obtain sid cfg where x: "x = (sid, cfg)" by (cases x)
  obtain r s' where c: "connectToServer env sid cfg s = (r, s')" by (cases "connectToServer env sid cfg s")
  have o: "toolsOwned s'" using toolsOwned_connectToServer [OF Cons.prems, of env sid cfg] c by simp
  show ?case
  proof (cases r)
    case (Inl e)
    have "toolsOwned (logError (msg sid) e s')" using o by (simp add: toolsOwned_def logError_def)
    then show ?thesis using Cons.IH Inl by (simp add: x c)
  next
    case (Inr u)
    then show ?thesis using Cons.IH o by (simp add: x c)
  qed
qed

lemma toolsOwned_switchProfile: "toolsOwned (snd (switchProfile env p s))"
proof (cases "readFile env p")
  case (Inl e)
  then show ?thesis
    by (simp add: switchProfile_def readConfig_def Let_def toolsOwned_def logError_def)
next
  case (Inr cfg)
  have "toolsOwned (cleanup env s\<lparr>clients := [], toolMap := [], config := cfg, currentProfile := p\<rparr>)"
    by (simp add: toolsOwned_def)
  then show ?thesis
    using Inr by (simp add: switchProfile_def readConfig_def Let_def toolsOwned_connectServers)
qed

lemma toolsOwned_start: "toolsOwned s \<Longrightarrow> toolsOwned (snd (start env p md address s))"
proof (cases "readFile env p")
  case (Inl e)
  assume "toolsOwned s"
  then show ?thesis using Inl
    by (simp add: start_def readConfig_def toolsOwned_def logError_def)
next
  case (Inr cfg)
  assume "toolsOwned s"
  then have "toolsOwned (s\<lparr>config := cfg, currentProfile := p\<rparr>)"
    by (simp add: toolsOwned_def)
  then have "toolsOwned (connectServers env msg (mcpServers cfg) (s\<lparr>config := cfg, currentProfile := p\<rparr>))" for msg
    by (rule toolsOwned_connectServers)
  then show ?thesis
    using Inr by (simp add: start_def readConfig_def Let_def toolsOwned_def logInfo_def
        split: mode.splits option.splits)
qed

lemma toolsOwned_effects [simp]: "toolsOwned (s\<lparr>effects := tr\<rparr>) = toolsOwned s"
  by (simp add: toolsOwned_def)

lemma toolsOwned_transports [simp]: "toolsOwned (s\<lparr>transports := ts\<rparr>) = toolsOwned s"
  by (simp add: toolsOwned_def)

lemma toolsOwned_handleCallTool: "toolsOwned s \<Longrightarrow> toolsOwned (snd (handleCallTool env params s))"
  by (simp add: handleCallTool_def forwardCall_def Let_def split: option.splits sum.splits prod.splits)

lemma toolsOwned_postMessages: "toolsOwned s \<Longrightarrow> toolsOwned (snd (postMessages env sid req s))"
  by (simp add: postMessages_def logInfo_def logError_def split: property.splits sum.splits)

lemma reachable_toolsOwned: "reachable env s \<Longrightarrow> toolsOwned s"
proof (induction rule: reachable.induct)
  case reach_initial
  show ?case by (simp add: toolsOwned_def initial_def)
next
  case (reach_start s p md address)
  then show ?case by (simp add: toolsOwned_start)
next
  case (reach_switchProfile s p)
  show ?case by (rule toolsOwned_switchProfile)
next
  case (reach_handleListTools s)
  then show ?case by (simp add: handleListTools_def)
next
  case (reach_handleCallTool s params)
  then show ?case by (simp add: toolsOwned_handleCallTool)
next
  case (reach_getSse s sid)
  then show ?case by (simp add: getSse_def logError_def Let_def split: option.splits)
next
  case (reach_postMessages s sid req)
  then show ?case by (simp add: toolsOwned_postMessages)
next
  case (reach_onclose s t)
  then show ?case by (simp add: onclose_def logInfo_def Let_def)
next
  case (reach_onerror s t e)
  then show ?case by (simp add: onerror_def logError_def Let_def)
next
  case (reach_requestClosed s t)
  then show ?case by (simp add: requestClosed_def logInfo_def logError_def Let_def split: option.splits)
qed

subsection \<open>Open connections\<close>

lemma openConnections_append [simp]:
  "openConnections (tr @ es) = foldl replay (openConnections tr) es"
  by (simp add: openConnections_def)

lemma openConnections_Nil [simp]: "openConnections [] = []"
  by (simp add: openConnections_def)

lemma openConnections_closeTransports [simp]:
  "openConnections (effects (closeTransports env ts s)) = openConnections (effects s)"
  by (induction ts arbitrary: s) (simp_all add: logError_def Let_def split: option.splits)

lemma openConnections_closeClients:
  "openConnections (effects s) = cs @ r \<Longrightarrow> openConnections (effects (closeClients env cs s)) = r"
  by (induction cs arbitrary: s) (simp_all add: logError_def Let_def split: option.splits)

lemma openConnections_cleanup:
  "connectionsHeld s \<Longrightarrow> openConnections (effects (cleanup env s)) = []"
  by (simp add: cleanup_def Let_def connectionsHeld_def openConnections_closeClients)

lemma map_snd_update_new:
  "map_of al k = None \<Longrightarrow> map snd (AList.update k v al) = map snd al @ [v]"
  by (induction al) (auto split: if_splits)

lemma connectionsHeld_connectToServer:
  assumes "connectionsHeld s"
  shows "connectionsHeld (snd (connectToServer env sid cfg s))"
proof -
  obtain r s' where c: "connectToServer env sid cfg s = (r, s')" by (cases "connectToServer env sid cfg s")
  from c have "connectionsHeld s'"
    using assms
    by (cases rule: connectToServer_cases) (simp_all add: connectionsHeld_def map_snd_update_new)
  then show ?thesis using c by simp
qed

lemma connectionsHeld_logError [simp]: "connectionsHeld (logError m e s) = connectionsHeld s"
  by (simp add: connectionsHeld_def logError_def)

lemma connectionsHeld_logInfo [simp]: "connectionsHeld (logInfo m xs s) = connectionsHeld s"
  by (simp add: connectionsHeld_def logInfo_def)

lemma connectionsHeld_connectServers:
  "connectionsHeld s \<Longrightarrow> connectionsHeld (connectServers env msg xs s)"
proof (induction xs arbitrary: s)
  case Nil
  then show ?case by simp
next
  case (Cons x xs)
  obtain sid cfg where x: "x = (sid, cfg)" by (cases x)
  obtain r s' where c: "connectToServer env sid cfg s = (r, s')" by (cases "connectToServer env sid cfg s")
  have o: "connectionsHeld s'" using connectionsHeld_connectToServer [OF Cons.prems, of env sid cfg] c by simp
  show ?case
  proof (cases r)
    case (Inl e)
    then show ?thesis using Cons.IH [of "logError (msg sid) e s'"] o by (simp add: x c)
  next
    case (Inr u)
    then show ?thesis using Cons.IH o by (simp add: x c)
  qed
qed

lemma connectionsHeld_switchProfile:
  assumes "connectionsHeld s"
  shows "connectionsHeld (snd (switchProfile env p s))"
proof (cases "readFile env p")
  case (Inl e)
  then show ?thesis
    using openConnections_cleanup [OF assms, of env]
    by (simp add: switchProfile_def readConfig_def Let_def connectionsHeld_def logError_def)
next
  case (Inr cfg)
  have "connectionsHeld (cleanup env s\<lparr>clients := [], toolMap := [], config := cfg, currentProfile := p\<rparr>)"
    using openConnections_cleanup [OF assms, of env] by (simp add: connectionsHeld_def)
  then show ?thesis
    using Inr by (simp add: switchProfile_def readConfig_def Let_def connectionsHeld_connectServers)
qed

lemma connectionsHeld_initial: "connectionsHeld initial"
  by (simp add: connectionsHeld_def initial_def)

subsection \<open>The loop depends on the maps only\<close>

lemma sameMaps_connectToServer:
  assumes "sameMaps s t"
  shows "fst (connectToServer env sid cfg s) = fst (connectToServer env sid cfg t) \<and>
         sameMaps (snd (connectToServer env sid cfg s)) (snd (connectToServer env sid cfg t))"
  using assms
  by (simp add: connectToServer_def sameMaps_def logInfo_def Let_def
      split: sum.splits option.splits)

lemma sameMaps_connectServers:
  "sameMaps s t \<Longrightarrow> sameMaps (connectServers env msg xs s) (connectServers env msg xs t)"
proof (induction xs arbitrary: s t)
  case Nil
  then show ?case by simp
next
  case (Cons x xs)
  obtain sid cfg where x: "x = (sid, cfg)" by (cases x)
  obtain r s' where c: "connectToServer env sid cfg s = (r, s')" by (cases "connectToServer env sid cfg s")
  obtain r2 t' where d: "connectToServer env sid cfg t = (r2, t')" by (cases "connectToServer env sid cfg t")
  have o: "r = r2 \<and> sameMaps s' t'" using sameMaps_connectToServer [OF Cons.prems, of env sid cfg] c d by simp
  show ?case
  proof (cases r)
    case (Inl e)
    have "sameMaps (logError (msg sid) e s') (logError (msg sid) e t')"
      using o by (simp add: sameMaps_def logError_def)
    then show ?thesis using Cons.IH Inl o by (simp add: x c d)
  next
    case (Inr u)
    then show ?thesis using Cons.IH o by (simp add: x c d)
  qed
qed

subsection \<open>The example, evaluated\<close>

lemmas example_defs = exampleEnv_def kubernetes_def docker_def legacy_def filesystem_def get_pods_def
  list_containers_def pods_def kubernetesClient_def dockerClient_def

lemmas run_defs = switchProfile_def cleanup_def readConfig_def connectToServer_def newTransport_def
  newClient_def logInfo_def logError_def prefixedName_def initial_def Let_def

lemma developerProxy_clients:
  "clients developerProxy = [(''kubernetes'', kubernetesClient), (''docker'', dockerClient)]"
  by (simp add: developerProxy_def example_defs run_defs)

lemma developerProxy_toolMap:
  "toolMap developerProxy =
     [(''kubernetes_get_pods'', \<lparr>serverId = ''kubernetes'', tool = get_pods\<rparr>),
      (''docker_list_containers'', \<lparr>serverId = ''docker'', tool = list_containers\<rparr>)]"
  by (simp add: developerProxy_def example_defs run_defs)

lemma developerProxy_currentProfile: "currentProfile developerProxy = ''developer''"
  by (simp add: developerProxy_def example_defs run_defs)

lemma personalProxy_maps: "clients personalProxy = [] \<and> toolMap personalProxy = []
    \<and> currentProfile personalProxy = ''personal''"
  by (simp add: personalProxy_def example_defs run_defs)

lemma reachable_developerProxy: "reachable exampleEnv developerProxy"
  unfolding developerProxy_def by (rule reach_switchProfile [OF reach_initial])

section \<open>Connecting a backend twice\<close>

text \<open>
  C10. Connecting a backend id that is already in the client set is a no-op:
  \<open>connectToServer\<close> returns at once, and the state is the one it was given, with its
  client set, its tool registry and its trace of effects (no connection is opened). So
  once a call for an id has succeeded, a second call for the same id, with whatever
  descriptor, changes nothing.
\<close>

theorem connectToServer_present:
  "(map_of (clients s) sid \<noteq> None \<longrightarrow> connectToServer env sid cfg s = (Inr (), s)) \<and>
   (fst (connectToServer env sid cfg s) = Inr () \<longrightarrow>
      connectToServer env sid cfg' (snd (connectToServer env sid cfg s))
        = (Inr (), snd (connectToServer env sid cfg s)))"
proof (intro conjI impI)
  assume "map_of (clients s) sid \<noteq> None"
  then show "connectToServer env sid cfg s = (Inr (), s)"
    by (simp add: connectToServer_def)
next
  assume ok: "fst (connectToServer env sid cfg s) = Inr ()"
  obtain r s' where c: "connectToServer env sid cfg s = (r, s')"
    by (cases "connectToServer env sid cfg s")
  have "r = Inr ()" using ok c by simp
  with c have "map_of (clients s') sid \<noteq> None"
    by (cases rule: connectToServer_cases) (auto simp: update_conv')
  then have "connectToServer env sid cfg' s' = (Inr (), s')"
    by (simp add: connectToServer_def)
  then show "connectToServer env sid cfg' (snd (connectToServer env sid cfg s))
        = (Inr (), snd (connectToServer env sid cfg s))"
    by (simp add: c)
qed

theorem connectToServer_present_witness:
  "connectToServer exampleEnv ''kubernetes'' kubernetes developerProxy = (Inr (), developerProxy)"
  using connectToServer_present [of developerProxy "''kubernetes''" exampleEnv kubernetes]
  by (simp add: developerProxy_clients)

section \<open>Calling a tool\<close>

text \<open>
  C5. Calling a qualified name that is not in the tool registry returns normally (the
  result is \<open>Inr\<close>, nothing is thrown): an error-flagged response whose text contains the
  qualified name and the current profile name, with the \<open>_meta\<close> of the request; the state
  does not change.
\<close>

theorem handleCallTool_not_found:
  assumes "map_of (toolMap s) (params_name params) = None"
  shows "handleCallTool env params s =
           (Inr \<lparr>content = [TextContent (''Tool '' @ params_name params @ '' not found in profile ''
                    @ currentProfile s)],
                 isError = Some True, result_meta = params_meta params\<rparr>, s)
         \<and> sublist (params_name params)
             (''Tool '' @ params_name params @ '' not found in profile '' @ currentProfile s)
         \<and> sublist (currentProfile s)
             (''Tool '' @ params_name params @ '' not found in profile '' @ currentProfile s)"
proof (intro conjI)
  show "handleCallTool env params s =
           (Inr \<lparr>content = [TextContent (''Tool '' @ params_name params @ '' not found in profile ''
                    @ currentProfile s)],
                 isError = Some True, result_meta = params_meta params\<rparr>, s)"
    using assms by (simp add: handleCallTool_def errorResult_def Let_def)
  show "sublist (params_name params)
             (''Tool '' @ params_name params @ '' not found in profile '' @ currentProfile s)"
    by (rule sublist_appendI)
  have "sublist (currentProfile s)
          ((''Tool '' @ params_name params @ '' not found in profile '') @ currentProfile s)"
    by (rule sublist_append_leftI)
  then show "sublist (currentProfile s)
             (''Tool '' @ params_name params @ '' not found in profile '' @ currentProfile s)"
    by simp
qed

theorem handleCallTool_not_found_witness:
  "handleCallTool exampleEnv
     \<lparr>params_name = ''kubernetes_restart'', params_arguments = None,
      params_meta = Some \<lparr>progressToken = Some (TokenNumber 7)\<rparr>\<rparr> developerProxy =
   (Inr \<lparr>content = [TextContent ''Tool kubernetes_restart not found in profile developer''],
         isError = Some True,
         result_meta = Some \<lparr>progressToken = Some (TokenNumber 7)\<rparr>\<rparr>, developerProxy)"
  using handleCallTool_not_found [of developerProxy
     "\<lparr>params_name = ''kubernetes_restart'', params_arguments = None,
      params_meta = Some \<lparr>progressToken = Some (TokenNumber 7)\<rparr>\<rparr>" exampleEnv]
  by (simp add: developerProxy_toolMap developerProxy_currentProfile)

text \<open>In a reachable state a registry entry stands under its prefixed name, and its backend has a client.\<close>

lemma reachable_registry_key:
  assumes "reachable env s" and "map_of (toolMap s) q = Some info"
  shows "q = serverId info @ ''_'' @ name (tool info) \<and> map_of (clients s) (serverId info) \<noteq> None"
proof -
  have "(q, info) \<in> set (toolMap s)" using assms(2) by (rule map_of_SomeD)
  moreover have "toolsOwned s" using assms(1) by (rule reachable_toolsOwned)
  ultimately show ?thesis by (auto simp: toolsOwned_iff prefixedName_def)
qed

text \<open>
  C4. When the qualified name is in the registry and its backend has a client, the proxy
  calls that client with the tool's own name (the registry entry's \<open>tool.name\<close>, which in
  every reachable state is the qualified name without the \<open>serverId_\<close> prefix) and the
  caller's arguments (\<open>{}\<close> when there are none); when the backend returns a result, that
  result is returned as it is.
\<close>

theorem handleCallTool_forwards:
  assumes "map_of (toolMap s) (params_name params) = Some info"
    and "map_of (clients s) (serverId info) = Some c"
  shows "snd (handleCallTool env params s) =
           s\<lparr>effects := effects s @ [ToolCalled c (name (tool info))
              (case params_arguments params of None \<Rightarrow> [] | Some a \<Rightarrow> a)]\<rparr>
       \<and> (\<forall>r. callTool env c (name (tool info))
              (case params_arguments params of None \<Rightarrow> [] | Some a \<Rightarrow> a) = Inr r
            \<longrightarrow> fst (handleCallTool env params s) = Inr r)
       \<and> (reachable env s \<longrightarrow> params_name params = serverId info @ ''_'' @ name (tool info))"
proof (intro conjI allI impI)
  show "snd (handleCallTool env params s) =
           s\<lparr>effects := effects s @ [ToolCalled c (name (tool info))
              (case params_arguments params of None \<Rightarrow> [] | Some a \<Rightarrow> a)]\<rparr>"
    using assms by (simp add: handleCallTool_def forwardCall_def Let_def split: sum.splits)
next
  fix r
  assume "callTool env c (name (tool info))
              (case params_arguments params of None \<Rightarrow> [] | Some a \<Rightarrow> a) = Inr r"
  then show "fst (handleCallTool env params s) = Inr r"
    using assms by (simp add: handleCallTool_def forwardCall_def Let_def)
next
  assume "reachable env s"
  then show "params_name params = serverId info @ ''_'' @ name (tool info)"
    using assms(1) reachable_registry_key by blast
qed

theorem handleCallTool_forwards_witness:
  "handleCallTool exampleEnv
     \<lparr>params_name = ''kubernetes_get_pods'', params_arguments = None, params_meta = None\<rparr>
     developerProxy =
   (Inr pods, developerProxy\<lparr>effects := effects developerProxy @ [ToolCalled kubernetesClient ''get_pods'' []]\<rparr>)"
proof -
  let ?p = "\<lparr>params_name = ''kubernetes_get_pods'', params_arguments = None, params_meta = None\<rparr>"
  have a: "map_of (toolMap developerProxy) (params_name ?p) = Some \<lparr>serverId = ''kubernetes'', tool = get_pods\<rparr>"
    by (simp add: developerProxy_toolMap)
  have b: "map_of (clients developerProxy) (serverId \<lparr>serverId = ''kubernetes'', tool = get_pods\<rparr>) = Some kubernetesClient"
    by (simp add: developerProxy_clients)
  have c: "callTool exampleEnv kubernetesClient ''get_pods'' [] = Inr pods"
    by (simp add: exampleEnv_def kubernetesClient_def newClient_def)
  show ?thesis
    using handleCallTool_forwards [OF a b, of exampleEnv] c
    by (simp add: get_pods_def prod_eq_iff)
qed

text \<open>
  C8. When the forwarded call throws (a rejected promise), the \<open>catch\<close> turns it into a
  normal return: an error-flagged response whose text contains the qualified name and the
  text of the error, with the \<open>_meta\<close> of the request.
\<close>

theorem handleCallTool_backend_error:
  assumes "map_of (toolMap s) (params_name params) = Some info"
    and "map_of (clients s) (serverId info) = Some c"
    and "callTool env c (name (tool info))
            (case params_arguments params of None \<Rightarrow> [] | Some a \<Rightarrow> a) = Inl e"
  shows "fst (handleCallTool env params s) =
           Inr \<lparr>content = [TextContent (''Error calling tool '' @ params_name params @ '': '' @ toString e)],
                isError = Some True, result_meta = params_meta params\<rparr>
       \<and> sublist (params_name params) (''Error calling tool '' @ params_name params @ '': '' @ toString e)
       \<and> sublist (toString e) (''Error calling tool '' @ params_name params @ '': '' @ toString e)"
proof (intro conjI)
  show "fst (handleCallTool env params s) =
           Inr \<lparr>content = [TextContent (''Error calling tool '' @ params_name params @ '': '' @ toString e)],
                isError = Some True, result_meta = params_meta params\<rparr>"
    using assms by (simp add: handleCallTool_def forwardCall_def errorResult_def Let_def)
  show "sublist (params_name params) (''Error calling tool '' @ params_name params @ '': '' @ toString e)"
    by (rule sublist_appendI)
  have "sublist (toString e) ((''Error calling tool '' @ params_name params @ '': '') @ toString e)"
    by (rule sublist_append_leftI)
  then show "sublist (toString e) (''Error calling tool '' @ params_name params @ '': '' @ toString e)"
    by simp
qed

theorem handleCallTool_backend_error_witness:
  "fst (handleCallTool exampleEnv
     \<lparr>params_name = ''docker_list_containers'', params_arguments = Some [(''all'', ''true'')],
      params_meta = Some \<lparr>progressToken = Some (TokenString ''t1'')\<rparr>\<rparr> developerProxy) =
   Inr \<lparr>content = [TextContent ''Error calling tool docker_list_containers: Error: Not connected''],
        isError = Some True, result_meta = Some \<lparr>progressToken = Some (TokenString ''t1'')\<rparr>\<rparr>"
proof -
  let ?p = "\<lparr>params_name = ''docker_list_containers'', params_arguments = Some [(''all'', ''true'')],
      params_meta = Some \<lparr>progressToken = Some (TokenString ''t1'')\<rparr>\<rparr>"
  let ?i = "\<lparr>serverId = ''docker'', tool = list_containers\<rparr>"
  have a: "map_of (toolMap developerProxy) (params_name ?p) = Some ?i"
    by (simp add: developerProxy_toolMap)
  have b: "map_of (clients developerProxy) (serverId ?i) = Some dockerClient"
    by (simp add: developerProxy_clients)
  have c: "callTool exampleEnv dockerClient (name (tool ?i))
             (case params_arguments ?p of None \<Rightarrow> [] | Some a \<Rightarrow> a) = Inl (Error ''Not connected'')"
    by (simp add: exampleEnv_def dockerClient_def newClient_def list_containers_def)
  show ?thesis
    using handleCallTool_backend_error [OF a b c] by simp
qed

text \<open>
  The \<open>not connected\<close> response is for a registry entry whose backend id has no client
  in \<open>clients\<close>; no reachable state has such an entry.
\<close>

lemma handleCallTool_not_connected:
  assumes "map_of (toolMap s) (params_name params) = Some info"
    and "map_of (clients s) (serverId info) = None"
  shows "handleCallTool env params s =
           (Inr \<lparr>content = [TextContent (''Server '' @ serverId info @ '' not connected in profile ''
                    @ currentProfile s)],
                 isError = Some True, result_meta = params_meta params\<rparr>, s)"
  using assms by (simp add: handleCallTool_def errorResult_def Let_def)

lemma reachable_client_present:
  "reachable env s \<Longrightarrow> map_of (toolMap s) q = Some info \<Longrightarrow> map_of (clients s) (serverId info) \<noteq> None"
  using reachable_registry_key by blast

text \<open>
  C6. A call to a tool of a backend whose connection is closed. Nothing takes a client out
  of \<open>clients\<close> when its connection closes, so with \<open>docker\<close> gone the lookup of the
  client still succeeds, the forwarded call throws \<open>Not connected\<close>, and the response is
  the one of the \<open>catch\<close>: error-flagged, not thrown, with the qualified name, but
  without the name of the current profile.
\<close>

theorem handleCallTool_closed_connection:
  "map_of (toolMap developerProxy) ''docker_list_containers''
      = Some \<lparr>serverId = ''docker'', tool = list_containers\<rparr>
   \<and> map_of (clients developerProxy) ''docker'' = Some dockerClient
   \<and> callTool exampleEnv dockerClient ''list_containers'' [] = Inl (Error ''Not connected'')
   \<and> fst (handleCallTool exampleEnv
        \<lparr>params_name = ''docker_list_containers'', params_arguments = None, params_meta = None\<rparr>
        developerProxy)
      = Inr \<lparr>content = [TextContent ''Error calling tool docker_list_containers: Error: Not connected''],
             isError = Some True, result_meta = None\<rparr>
   \<and> \<not> sublist (currentProfile developerProxy)
          ''Error calling tool docker_list_containers: Error: Not connected''"
proof (intro conjI)
  show a: "map_of (toolMap developerProxy) ''docker_list_containers''
      = Some \<lparr>serverId = ''docker'', tool = list_containers\<rparr>"
    by (simp add: developerProxy_toolMap)
  show b: "map_of (clients developerProxy) ''docker'' = Some dockerClient"
    by (simp add: developerProxy_clients)
  show c: "callTool exampleEnv dockerClient ''list_containers'' [] = Inl (Error ''Not connected'')"
    by (simp add: exampleEnv_def dockerClient_def newClient_def)
  show "fst (handleCallTool exampleEnv
        \<lparr>params_name = ''docker_list_containers'', params_arguments = None, params_meta = None\<rparr>
        developerProxy)
      = Inr \<lparr>content = [TextContent ''Error calling tool docker_list_containers: Error: Not connected''],
             isError = Some True, result_meta = None\<rparr>"
    using a b c
    by (simp add: handleCallTool_def forwardCall_def errorResult_def Let_def list_containers_def)
  show "\<not> sublist (currentProfile developerProxy)
          ''Error calling tool docker_list_containers: Error: Not connected''"
    unfolding developerProxy_currentProfile by code_simp
qed

section \<open>Posting a message to a session\<close>

text \<open>
  A session id that names neither a session nor a member of \<open>Object.prototype\<close> gets the
  400 response; whatever the id, an id without a session leaves \<open>transports\<close> as it was and
  gets a 400 or a 500.
\<close>

lemma postMessages_no_session:
  assumes "map_of (transports s) sid = None" and "sid \<notin> set objectPrototypeKeys"
  shows "postMessages env sid req s =
           (\<lparr>status = 400, body = [(''error'', ''No transport found for sessionId'')]\<rparr>,
            logInfo ''No transport found for sessionId'' [sid] s)"
  using assms by (simp add: postMessages_def getProperty_def)

lemma postMessages_transports:
  assumes "map_of (transports s) sid = None"
  shows "transports (snd (postMessages env sid req s)) = transports s
       \<and> status (fst (postMessages env sid req s)) \<in> {400, 500}"
  using assms by (simp add: postMessages_def getProperty_def logInfo_def logError_def)

text \<open>
  C9. A posted message whose session id matches no session. For the id \<open>constructor\<close>
  the lookup yields \<open>Object.prototype.constructor\<close>, the \<open>!transport\<close> test does not
  fire, \<open>transport.handlePostMessage\<close> is not a function, and the \<open>catch\<close> answers
  500 \<open>Internal server error\<close> instead of 400 \<open>No transport found for sessionId\<close>.
\<close>

theorem postMessages_inherited_key:
  "map_of (transports developerProxy) ''constructor'' = None
   \<and> postMessages exampleEnv ''constructor'' ''{}'' developerProxy =
       (\<lparr>status = 500, body = [(''error'', ''Internal server error'')]\<rparr>,
        logError ''Error handling message:''
          (External ''TypeError: transport.handlePostMessage is not a function'') developerProxy)"
proof -
  have t: "transports developerProxy = []"
    by (simp add: developerProxy_def switchProfile_def readConfig_def logError_def Let_def split: sum.splits)
  have m: "''constructor'' \<in> set objectPrototypeKeys"
    by (simp add: objectPrototypeKeys_def)
  show ?thesis
    using m by (simp add: t postMessages_def getProperty_def)
qed

section \<open>Listing the tools\<close>

text \<open>
  C7. \<open>handleListTools\<close> has no failing path and returns the state it was given. It
  returns one entry per registry entry, in the registry's order, named
  \<open>serverId_name\<close> (in a reachable state this is the entry's key) and described as
  \<open>[profile/serverId] \<close> followed by the tool's description (by nothing when the tool has
  none), the rest of the tool passed on. In a reachable state with no client the list is
  empty. The registry, and so every lookup in it, is what it was.
\<close>

theorem handleListTools_decorated:
  "snd (handleListTools s) = s
   \<and> length (fst (handleListTools s)) = length (toolMap s)
   \<and> (\<forall>i < length (toolMap s).
         name (fst (handleListTools s) ! i)
           = serverId (snd (toolMap s ! i)) @ ''_'' @ name (tool (snd (toolMap s ! i)))
       \<and> description (fst (handleListTools s) ! i)
           = Some (''['' @ currentProfile s @ ''/'' @ serverId (snd (toolMap s ! i)) @ ''] '' @
               (case description (tool (snd (toolMap s ! i))) of None \<Rightarrow> [] | Some d \<Rightarrow> d))
       \<and> inputSchema (fst (handleListTools s) ! i) = inputSchema (tool (snd (toolMap s ! i)))
       \<and> (reachable env s \<longrightarrow> name (fst (handleListTools s) ! i) = fst (toolMap s ! i)))
   \<and> (reachable env s \<longrightarrow> clients s = [] \<longrightarrow> fst (handleListTools s) = [])
   \<and> map_of (toolMap (snd (handleListTools s))) = map_of (toolMap s)"
proof (intro conjI allI impI)
  show "snd (handleListTools s) = s" by (simp add: handleListTools_def)
  show "length (fst (handleListTools s)) = length (toolMap s)" by (simp add: handleListTools_def)
  show "map_of (toolMap (snd (handleListTools s))) = map_of (toolMap s)"
    by (simp add: handleListTools_def)
next
  fix i assume i: "i < length (toolMap s)"
  show "name (fst (handleListTools s) ! i)
           = serverId (snd (toolMap s ! i)) @ ''_'' @ name (tool (snd (toolMap s ! i)))"
    using i by (simp add: handleListTools_def decorate_def)
  show "description (fst (handleListTools s) ! i)
           = Some (''['' @ currentProfile s @ ''/'' @ serverId (snd (toolMap s ! i)) @ ''] '' @
               (case description (tool (snd (toolMap s ! i))) of None \<Rightarrow> [] | Some d \<Rightarrow> d))"
    using i by (simp add: handleListTools_def decorate_def)
  show "inputSchema (fst (handleListTools s) ! i) = inputSchema (tool (snd (toolMap s ! i)))"
    using i by (simp add: handleListTools_def decorate_def)
  assume r: "reachable env s"
  have "toolMap s ! i \<in> set (toolMap s)" using i by simp
  then have "fst (toolMap s ! i)
      = prefixedName (serverId (snd (toolMap s ! i))) (tool (snd (toolMap s ! i)))"
    using reachable_toolsOwned [OF r] by (auto simp: toolsOwned_iff)
  then show "name (fst (handleListTools s) ! i) = fst (toolMap s ! i)"
    using i by (simp add: handleListTools_def decorate_def prefixedName_def)
next
  assume r: "reachable env s" and e: "clients s = []"
  have "toolMap s = []"
  proof (cases "toolMap s")
    case Nil
    then show ?thesis .
  next
    case (Cons x xs)
    then have "x \<in> set (toolMap s)" by simp
    then have "map_of (clients s) (serverId (snd x)) \<noteq> None"
      using reachable_toolsOwned [OF r] by (auto simp: toolsOwned_iff)
    then show ?thesis using e by simp
  qed
  then show "fst (handleListTools s) = []" by (simp add: handleListTools_def)
qed

lemma reachable_personalProxy: "reachable exampleEnv personalProxy"
  unfolding personalProxy_def by (rule reach_switchProfile [OF reach_initial])

theorem handleListTools_decorated_witness:
  "fst (handleListTools developerProxy) =
     [\<lparr>name = ''kubernetes_get_pods'', description = Some ''[developer/kubernetes] List pods'',
       inputSchema = ''{}''\<rparr>,
      \<lparr>name = ''docker_list_containers'', description = Some ''[developer/docker] '',
       inputSchema = ''{}''\<rparr>]
   \<and> fst (handleListTools personalProxy) = []"
proof -
  note d = handleListTools_decorated [of developerProxy exampleEnv]
  note p = handleListTools_decorated [of personalProxy exampleEnv]
  have len: "length (fst (handleListTools developerProxy)) = 2"
    using d by (simp add: developerProxy_toolMap)
  have i0: "(0::nat) < length (toolMap developerProxy)" and i1: "(1::nat) < length (toolMap developerProxy)"
    by (simp_all add: developerProxy_toolMap)
  from d have all: "\<forall>i < length (toolMap developerProxy).
         name (fst (handleListTools developerProxy) ! i)
           = serverId (snd (toolMap developerProxy ! i)) @ ''_'' @ name (tool (snd (toolMap developerProxy ! i)))
       \<and> description (fst (handleListTools developerProxy) ! i)
           = Some (''['' @ currentProfile developerProxy @ ''/'' @ serverId (snd (toolMap developerProxy ! i)) @ ''] '' @
               (case description (tool (snd (toolMap developerProxy ! i))) of None \<Rightarrow> [] | Some d \<Rightarrow> d))
       \<and> inputSchema (fst (handleListTools developerProxy) ! i) = inputSchema (tool (snd (toolMap developerProxy ! i)))
       \<and> (reachable exampleEnv developerProxy \<longrightarrow> name (fst (handleListTools developerProxy) ! i) = fst (toolMap developerProxy ! i))"
    by blast
  have e0: "fst (handleListTools developerProxy) ! 0 =
      \<lparr>name = ''kubernetes_get_pods'', description = Some ''[developer/kubernetes] List pods'',
       inputSchema = ''{}''\<rparr>"
    using all [rule_format, OF i0]
    by (simp add: developerProxy_toolMap developerProxy_currentProfile get_pods_def)
  have e1: "fst (handleListTools developerProxy) ! 1 =
      \<lparr>name = ''docker_list_containers'', description = Some ''[developer/docker] '',
       inputSchema = ''{}''\<rparr>"
    using all [rule_format, OF i1]
    by (simp add: developerProxy_toolMap developerProxy_currentProfile list_containers_def)
  have "fst (handleListTools developerProxy) =
     [fst (handleListTools developerProxy) ! 0, fst (handleListTools developerProxy) ! 1]"
    using len by (cases "fst (handleListTools developerProxy)"; cases "tl (fst (handleListTools developerProxy))") auto
  then have dev: "fst (handleListTools developerProxy) =
     [\<lparr>name = ''kubernetes_get_pods'', description = Some ''[developer/kubernetes] List pods'',
       inputSchema = ''{}''\<rparr>,
      \<lparr>name = ''docker_list_containers'', description = Some ''[developer/docker] '',
       inputSchema = ''{}''\<rparr>]"
    using e0 e1 by simp
  have "fst (handleListTools personalProxy) = []"
    using p reachable_personalProxy personalProxy_maps by simp
  with dev show ?thesis by simp
qed

section \<open>Activating a profile\<close>

subsection \<open>Where registry entries come from\<close>






section \<open>Switching twice\<close>

text \<open>After a switch to a profile that loads, the maps do not depend on the state before.\<close>

lemma switchProfile_sameMaps:
  assumes "readFile env b = Inr cfg"
  shows "sameMaps (snd (switchProfile env b s)) (snd (switchProfile env b t))"
proof -
  let ?msg = "\<lambda>sid. ''Failed to connect to server '' @ sid @ '' in profile '' @ b @ '':''"
  have "sameMaps (cleanup env s\<lparr>clients := [], toolMap := [], config := cfg, currentProfile := b\<rparr>)
                 (cleanup env t\<lparr>clients := [], toolMap := [], config := cfg, currentProfile := b\<rparr>)"
    by (simp add: sameMaps_def)
  then have "sameMaps
      (connectServers env ?msg (mcpServers cfg)
         (cleanup env s\<lparr>clients := [], toolMap := [], config := cfg, currentProfile := b\<rparr>))
      (connectServers env ?msg (mcpServers cfg)
         (cleanup env t\<lparr>clients := [], toolMap := [], config := cfg, currentProfile := b\<rparr>))"
    by (rule sameMaps_connectServers)
  then show ?thesis
    using assms by (simp add: switchProfile_def readConfig_def Let_def)
qed

text \<open>
  C2. For a profile \<open>b\<close> whose config loads, and the same backends' behaviour both
  times: \<open>switchProfile a\<close> followed by \<open>switchProfile b\<close>, from the constructor's state,
  ends with the client set, the tool registry, the current profile name and the outcome of
  \<open>switchProfile b\<close> alone. The connections then open (opened, and \<open>close()\<close> not called on
  them since) are those of that client set: none of \<open>a\<close> is left.
\<close>

theorem switchProfile_twice:
  assumes "readFile env b = Inr cfg"
  shows "clients (snd (switchProfile env b (snd (switchProfile env a initial))))
           = clients (snd (switchProfile env b initial))
       \<and> toolMap (snd (switchProfile env b (snd (switchProfile env a initial))))
           = toolMap (snd (switchProfile env b initial))
       \<and> currentProfile (snd (switchProfile env b (snd (switchProfile env a initial))))
           = currentProfile (snd (switchProfile env b initial))
       \<and> fst (switchProfile env b (snd (switchProfile env a initial)))
           = fst (switchProfile env b initial)
       \<and> openConnections (effects (snd (switchProfile env b (snd (switchProfile env a initial)))))
           = map snd (clients (snd (switchProfile env b initial)))"
proof -
  let ?A = "snd (switchProfile env a initial)"
  have s: "sameMaps (snd (switchProfile env b ?A)) (snd (switchProfile env b initial))"
    using assms by (rule switchProfile_sameMaps)
  have f: "fst (switchProfile env b ?A) = fst (switchProfile env b initial)"
    using assms by (simp add: switchProfile_def readConfig_def Let_def)
  have "connectionsHeld (snd (switchProfile env b ?A))"
    by (intro connectionsHeld_switchProfile connectionsHeld_initial)
  then have o: "openConnections (effects (snd (switchProfile env b ?A)))
      = map snd (clients (snd (switchProfile env b initial)))"
    using s by (simp add: connectionsHeld_def sameMaps_def)
  from s f o show ?thesis by (simp add: sameMaps_def)
qed

theorem switchProfile_twice_witness:
  "clients (snd (switchProfile exampleEnv ''developer'' personalProxy))
      = [(''kubernetes'', kubernetesClient), (''docker'', dockerClient)]
   \<and> toolMap (snd (switchProfile exampleEnv ''developer'' personalProxy))
      = [(''kubernetes_get_pods'', \<lparr>serverId = ''kubernetes'', tool = get_pods\<rparr>),
         (''docker_list_containers'', \<lparr>serverId = ''docker'', tool = list_containers\<rparr>)]
   \<and> currentProfile (snd (switchProfile exampleEnv ''developer'' personalProxy)) = ''developer''
   \<and> openConnections (effects (snd (switchProfile exampleEnv ''developer'' personalProxy)))
      = [kubernetesClient, dockerClient]"
proof -
  have r: "readFile exampleEnv ''developer''
      = Inr \<lparr>mcpServers = [(''kubernetes'', kubernetes), (''docker'', docker), (''legacy'', legacy)]\<rparr>"
    by (simp add: exampleEnv_def)
  show ?thesis
    using switchProfile_twice [OF r, of "''personal''"]
    by (simp add: personalProxy_def [symmetric] developerProxy_def [symmetric]
        developerProxy_clients developerProxy_toolMap developerProxy_currentProfile)
qed

section \<open>A profile that does not load\<close>

text \<open>
  C1, as the code has it. When the config of the new profile cannot be read,
  \<open>switchProfile\<close> throws \<open>Failed to load profile p\<close> after the teardown: the client
  set, the tool registry and the session map are empty, and \<open>close()\<close> has been called on
  every connection that was held. Only the current profile name and the loaded config are
  still those of the profile before.
\<close>

theorem switchProfile_load_failure:
  assumes "readFile env p = Inl e"
  shows "fst (switchProfile env p s) = Inl (Error (''Failed to load profile '' @ p))
       \<and> clients (snd (switchProfile env p s)) = []
       \<and> toolMap (snd (switchProfile env p s)) = []
       \<and> transports (snd (switchProfile env p s)) = []
       \<and> currentProfile (snd (switchProfile env p s)) = currentProfile s
       \<and> config (snd (switchProfile env p s)) = config s
       \<and> (connectionsHeld s \<longrightarrow> openConnections (effects (snd (switchProfile env p s))) = [])"
proof -
  have sw: "switchProfile env p s =
      (Inl (Error (''Failed to load profile '' @ p)),
       logError (''Error reading config file for profile '' @ p @ '':'') e
         (cleanup env s\<lparr>clients := [], toolMap := []\<rparr>))"
    using assms by (simp add: switchProfile_def readConfig_def Let_def)
  have "connectionsHeld s \<longrightarrow> openConnections (effects (snd (switchProfile env p s))) = []"
    using openConnections_cleanup [of s env] by (simp add: sw logError_def)
  then show ?thesis by (simp add: sw logError_def)
qed

lemma connectionsHeld_developerProxy: "connectionsHeld developerProxy"
  unfolding developerProxy_def by (intro connectionsHeld_switchProfile connectionsHeld_initial)

theorem switchProfile_load_failure_witness:
  "fst (switchProfile exampleEnv ''staging'' developerProxy) = Inl (Error ''Failed to load profile staging'')
   \<and> clients (snd (switchProfile exampleEnv ''staging'' developerProxy)) = []
   \<and> toolMap (snd (switchProfile exampleEnv ''staging'' developerProxy)) = []
   \<and> currentProfile (snd (switchProfile exampleEnv ''staging'' developerProxy)) = ''developer''
   \<and> openConnections (effects (snd (switchProfile exampleEnv ''staging'' developerProxy))) = []"
proof -
  have r: "readFile exampleEnv ''staging'' = Inl (External ''Error: ENOENT: no such file or directory'')"
    by (simp add: exampleEnv_def)
  show ?thesis
    using switchProfile_load_failure [OF r, of developerProxy] connectionsHeld_developerProxy
    by (simp add: developerProxy_currentProfile)
qed

text \<open>
  With \<open>developer\<close> active, a switch to \<open>staging\<close>, which has no config file, fails, and
  the two backends and the two tools of \<open>developer\<close> are gone.
\<close>

theorem switchProfile_load_failure_counterexample:
  "readFile exampleEnv ''staging'' = Inl (External ''Error: ENOENT: no such file or directory'')
   \<and> clients developerProxy = [(''kubernetes'', kubernetesClient), (''docker'', dockerClient)]
   \<and> toolMap developerProxy =
       [(''kubernetes_get_pods'', \<lparr>serverId = ''kubernetes'', tool = get_pods\<rparr>),
        (''docker_list_containers'', \<lparr>serverId = ''docker'', tool = list_containers\<rparr>)]
   \<and> fst (switchProfile exampleEnv ''staging'' developerProxy) = Inl (Error ''Failed to load profile staging'')
   \<and> clients (snd (switchProfile exampleEnv ''staging'' developerProxy)) = []
   \<and> toolMap (snd (switchProfile exampleEnv ''staging'' developerProxy)) = []
   \<and> clients (snd (switchProfile exampleEnv ''staging'' developerProxy)) \<noteq> clients developerProxy
   \<and> toolMap (snd (switchProfile exampleEnv ''staging'' developerProxy)) \<noteq> toolMap developerProxy"
proof -
  have r: "readFile exampleEnv ''staging'' = Inl (External ''Error: ENOENT: no such file or directory'')"
    by (simp add: exampleEnv_def)
  have "switchProfile exampleEnv ''staging'' developerProxy =
      (Inl (Error ''Failed to load profile staging''),
       logError ''Error reading config file for profile staging:''
         (External ''Error: ENOENT: no such file or directory'')
         (cleanup exampleEnv developerProxy\<lparr>clients := [], toolMap := []\<rparr>))"
    using r by (simp add: switchProfile_def readConfig_def Let_def)
  then show ?thesis
    using r by (simp add: developerProxy_clients developerProxy_toolMap logError_def)
qed

end
